theory Spec2Isabelle
  imports Complex_Main
begin

section \<open>Langevin dynamics and Metropolis Monte Carlo for the HF bond length\<close>

text \<open>
  The notebook \<^verbatim>\<open>HF_AverageBondLengthCalculations_preCodeRemoval.ipynb\<close> is one linear
  script. Its floating-point numbers are modelled as \<^typ>\<open>real\<close>: rounding and the values
  \<^verbatim>\<open>inf\<close> and \<^verbatim>\<open>nan\<close> are not represented; what is represented of the float format is
  where an operation raises. The random draws
  (\<^verbatim>\<open>np.random.normal(0,1)\<close>, \<^verbatim>\<open>np.random.uniform()\<close>) are inputs of the model: a
  function from the number of the draw to the value drawn. The spline objects of
  \<^verbatim>\<open>scipy.interpolate\<close> are inputs too; their code is not part of the notebook.

  What Python raises is a value of \<open>py_error\<close>. Two operations on Python floats raise:
  a division raises \<^verbatim>\<open>ZeroDivisionError\<close> at a zero divisor, and a power \<^verbatim>\<open>x**2\<close> raises
  \<^verbatim>\<open>OverflowError\<close> when its result is beyond the largest float (sums and products of
  Python floats overflow to \<^verbatim>\<open>inf\<close> without raising). The same operations with a numpy
  operand do not raise (they warn and yield \<^verbatim>\<open>inf\<close> or \<^verbatim>\<open>nan\<close>), and neither does
  \<^verbatim>\<open>np.sqrt\<close> of a negative number. At those points HOL's \<open>/\<close> and \<open>sqrt\<close> return a real
  number where numpy returns no number at all, so the model says nothing about the values
  there.
\<close>

datatype py_error = ZeroDivisionError | OverflowError | IndexError | ValueError

text \<open>
  The square \<^verbatim>\<open>x**2\<close> of a Python float. The largest float is \<open>2^1024 - 2^971\<close>; rounded to
  the nearest float, a square overflows from \<open>2^1024 - 2^970\<close> on, that is for \<open>\<bar>x\<bar>\<close> above
  about \<open>1.34e154\<close>. A result too small for the format is rounded to zero and raises
  nothing.
\<close>

definition float_overflow_bound :: real where
  "float_overflow_bound = 2 ^ 1024 - 2 ^ 970"

definition float_square :: "real \<Rightarrow> py_error + real" where
  "float_square x = (if float_overflow_bound \<le> x\<^sup>2 then Inl OverflowError else Inr (x\<^sup>2))"

subsection \<open>Constants of the notebook\<close>

definition temperature :: real where
  "temperature = 94 / 100000"

definition gamma :: real where
  "gamma = 5 / 1000"

definition mH :: real where
  "mH = 1836"

definition mF :: real where
  "mF = 34883"

text \<open>The globals \<^verbatim>\<open>mu\<close> and \<^verbatim>\<open>dt\<close>; the plain names are the parameters of \<open>BBK\<close>.\<close>

definition mu_HF :: real where
  "mu_HF = mH * mF / (mH + mF)"

definition dt_step :: real where
  "dt_step = 2 / 100"

subsection \<open>The BBK update\<close>

text \<open>
  \<^verbatim>\<open>
  def BBK(r_curr, v_curr, rp_curr, gamma_val, temperature_val, mu, f_interp, dt):
      a_curr = (-1*f_interp(r_curr) + rp_curr)/mu - gamma_val*v_curr
      r_fut = r_curr + v_curr * dt + 0.5 * a_curr * dt**2
      rp_fut = np.sqrt(2*temperature_val*gamma_val*mu/dt)*np.random.normal(0,1)
      a_fut = (-1*f_interp(r_fut) + rp_fut)/mu
      v_fut = (v_curr + 0.5*(a_curr + a_fut)*dt)/(1+0.5*gamma_val*dt)
      result = [r_fut, v_fut, rp_fut]
      return result
  \<close>
  \<open>f_interp\<close> is the derivative spline \<^verbatim>\<open>fE\<close>, whose value is a numpy array, so the
  divisions by \<open>mu\<close> and by \<open>1 + 0.5*gamma_val*dt\<close> are numpy's. The quotient
  \<^verbatim>\<open>2*temperature_val*gamma_val*mu/dt\<close> is computed on Python floats before \<^verbatim>\<open>np.sqrt\<close>
  sees it and raises when \<open>dt\<close> is zero. The time step is a Python float in every call, so
  \<^verbatim>\<open>dt**2\<close> is a float power and raises when it overflows. The last argument \<open>z\<close> is the
  value drawn by \<^verbatim>\<open>np.random.normal(0,1)\<close>.
\<close>

definition BBK ::
  "real \<Rightarrow> real \<Rightarrow> real \<Rightarrow> real \<Rightarrow> real \<Rightarrow> real \<Rightarrow> (real \<Rightarrow> real) \<Rightarrow> real \<Rightarrow> real
    \<Rightarrow> py_error + (real \<times> real \<times> real)" where
  "BBK r_curr v_curr rp_curr gamma_val temperature_val mu f_interp dt z =
     (let a_curr = (-1 * f_interp r_curr + rp_curr) / mu - gamma_val * v_curr
      in case float_square dt of
           Inl e \<Rightarrow> Inl e
         | Inr dt_squared \<Rightarrow>
             let r_fut = r_curr + v_curr * dt + 0.5 * a_curr * dt_squared
             in if dt = 0 then Inl ZeroDivisionError
                else
                  let rp_fut = sqrt (2 * temperature_val * gamma_val * mu / dt) * z;
                      a_fut = (-1 * f_interp r_fut + rp_fut) / mu;
                      v_fut = (v_curr + 0.5 * (a_curr + a_fut) * dt)
                                / (1 + 0.5 * gamma_val * dt)
                  in Inr (r_fut, v_fut, rp_fut))"

subsection \<open>Loops and arrays\<close>

text \<open>
  A \<^verbatim>\<open>for i in range(...)\<close> loop runs its body on the state for each index in turn and
  stops at the first exception.
\<close>

fun for_range :: "('s \<Rightarrow> nat \<Rightarrow> py_error + 's) \<Rightarrow> 's \<Rightarrow> nat list \<Rightarrow> py_error + 's" where
  "for_range body st [] = Inr st"
| "for_range body st (i # idxs) =
     (case body st i of Inl e \<Rightarrow> Inl e | Inr st' \<Rightarrow> for_range body st' idxs)"

text \<open>\<^verbatim>\<open>np.zeros(n)\<close>, and \<^verbatim>\<open>np.mean\<close> of a one-dimensional array.\<close>

definition zeros :: "nat \<Rightarrow> real list" where
  "zeros n = replicate n 0"

definition mean :: "real list \<Rightarrow> real" where
  "mean xs = sum_list xs / real (length xs)"

subsection \<open>The Langevin trajectory\<close>

text \<open>
  \<^verbatim>\<open>
  r_vs_t = np.zeros(N_updates)   (and v_vs_t, e_vs_t, temp_vs_t, t_array alike)
  r_vs_t[0] = r_init
  v_vs_t[0] = v_init
  e_vs_t[0] = (E_spline(r_init)-minE)+0.5*mu*v_init**2
  temp_vs_t[0] = mu*v_init**2
  result_array = BBK(r_init, v_init, rp_init, gamma, temperature, mu, fE, dt)
  for i in range(1,N_updates):
      tmp = BBK(result_array[0], result_array[1], result_array[2], gamma, temperature, mu, fE, dt)
      result_array = tmp
      t_array[i] = dt*i
      r_vs_t[i] = result_array[0]
      v_vs_t[i] = result_array[1]
      e_vs_t[i] = (E_spline(result_array[0])-minE)+0.5*mu*result_array[1]**2
      temp_vs_t[i] = mu*result_array[1]**2
  \<close>
  The globals the script reads are parameters here, so that it can be run on small
  inputs. The \<open>j\<close>-th call of \<open>BBK\<close> (counted from 0) draws \<open>normal j\<close>. The five stores of
  one iteration use the same index on arrays of the same length; the model checks the
  index once for each array and raises \<^verbatim>\<open>IndexError\<close> if any store is out of range.
  \<open>v_init\<close> is a Python float (\<^verbatim>\<open>np.random.uniform\<close> returns one), so \<^verbatim>\<open>v_init**2\<close> is a
  float power; \<^verbatim>\<open>result_array[1]\<close> is a numpy number, whose square does not raise.
\<close>

record trajectory =
  r_vs_t :: "real list"
  v_vs_t :: "real list"
  e_vs_t :: "real list"
  temp_vs_t :: "real list"
  t_array :: "real list"
  result_array :: "real \<times> real \<times> real"

record langevin_params =
  gamma_of :: real
  temperature_of :: real
  mu_of :: real
  E_spline_of :: "real \<Rightarrow> real"
  minE_of :: real
  fE_of :: "real \<Rightarrow> real"
  dt_of :: real

definition trajectory_init ::
  "langevin_params \<Rightarrow> (nat \<Rightarrow> real) \<Rightarrow> nat \<Rightarrow> real \<Rightarrow> real \<Rightarrow> real \<Rightarrow> py_error + trajectory" where
  "trajectory_init P normal N_updates r_init v_init rp_init =
     (if N_updates = 0 then Inl IndexError
      else
        case float_square v_init of
          Inl e \<Rightarrow> Inl e
        | Inr v_init_squared \<Rightarrow>
            case BBK r_init v_init rp_init (gamma_of P) (temperature_of P) (mu_of P) (fE_of P)
                   (dt_of P) (normal 0) of
              Inl e \<Rightarrow> Inl e
            | Inr res \<Rightarrow>
                Inr \<lparr> r_vs_t = (zeros N_updates)[0 := r_init],
                      v_vs_t = (zeros N_updates)[0 := v_init],
                      e_vs_t = (zeros N_updates)
                        [0 := (E_spline_of P r_init - minE_of P) + 0.5 * mu_of P * v_init_squared],
                      temp_vs_t = (zeros N_updates)[0 := mu_of P * v_init_squared],
                      t_array = zeros N_updates,
                      result_array = res \<rparr>)"

definition trajectory_step ::
  "langevin_params \<Rightarrow> (nat \<Rightarrow> real) \<Rightarrow> trajectory \<Rightarrow> nat \<Rightarrow> py_error + trajectory" where
  "trajectory_step P normal st i =
     (case result_array st of (r0, v0, rp0) \<Rightarrow>
        case BBK r0 v0 rp0 (gamma_of P) (temperature_of P) (mu_of P) (fE_of P) (dt_of P)
               (normal i) of
          Inl e \<Rightarrow> Inl e
        | Inr tmp \<Rightarrow>
            if i < length (t_array st) \<and> i < length (r_vs_t st) \<and> i < length (v_vs_t st)
               \<and> i < length (e_vs_t st) \<and> i < length (temp_vs_t st)
            then Inr \<lparr> r_vs_t = (r_vs_t st)[i := fst tmp],
                       v_vs_t = (v_vs_t st)[i := fst (snd tmp)],
                       e_vs_t = (e_vs_t st)
                         [i := (E_spline_of P (fst tmp) - minE_of P)
                                 + 0.5 * mu_of P * (fst (snd tmp))\<^sup>2],
                       temp_vs_t = (temp_vs_t st)[i := mu_of P * (fst (snd tmp))\<^sup>2],
                       t_array = (t_array st)[i := dt_of P * real i],
                       result_array = tmp \<rparr>
            else Inl IndexError)"

definition trajectory_run ::
  "langevin_params \<Rightarrow> (nat \<Rightarrow> real) \<Rightarrow> nat \<Rightarrow> real \<Rightarrow> real \<Rightarrow> real \<Rightarrow> py_error + trajectory" where
  "trajectory_run P normal N_updates r_init v_init rp_init =
     (case trajectory_init P normal N_updates r_init v_init rp_init of
        Inl e \<Rightarrow> Inl e
      | Inr st \<Rightarrow> for_range (trajectory_step P normal) st [1..<N_updates])"

text \<open>
  The reference the trajectory is compared with: the state after exactly \<open>n\<close> BBK updates
  of \<open>(r_init, v_init, rp_init)\<close>, the \<open>j\<close>-th update drawing \<open>normal j\<close>.
\<close>

fun BBK_iterate ::
  "langevin_params \<Rightarrow> (nat \<Rightarrow> real) \<Rightarrow> nat \<Rightarrow> real \<times> real \<times> real
    \<Rightarrow> py_error + (real \<times> real \<times> real)" where
  "BBK_iterate P normal 0 s = Inr s"
| "BBK_iterate P normal (Suc n) s =
     (case BBK_iterate P normal n s of
        Inl e \<Rightarrow> Inl e
      | Inr (r0, v0, rp0) \<Rightarrow>
          BBK r0 v0 rp0 (gamma_of P) (temperature_of P) (mu_of P) (fE_of P) (dt_of P)
            (normal n))"

subsection \<open>The Metropolis Monte Carlo loop\<close>

text \<open>
  \<^verbatim>\<open>
  r_accepted_array = np.zeros(N_updates)
  num_accepted_r = 0
  r_prev = r_init
  for i in range(0,N_updates):
      r_trial = r_prev + np.random.normal(0,1)
      p = np.exp(-E_spline_shifted(r_trial)/temperature)/np.exp(-E_spline_shifted(r_prev)/temperature)
      if(np.random.uniform()<p):
          r_accepted_array[num_accepted_r] = r_trial
          num_accepted_r = num_accepted_r + 1
  r_av_mc = np.mean(r_accepted_array[0:num_accepted_r])
  \<close>
  Iteration \<open>i\<close> draws \<open>normal i\<close> and \<open>uniform i\<close>. The loop assigns \<open>r_prev\<close> nowhere;
  it is kept in the state all the same, to make that visible. No operation of the loop is
  a division or a power of Python floats. The two \<^verbatim>\<open>print\<close> statements that follow the
  mean are not modelled.
\<close>

record mc_state =
  r_accepted_array :: "real list"
  num_accepted_r :: nat
  r_prev :: real

definition mc_init :: "nat \<Rightarrow> real \<Rightarrow> mc_state" where
  "mc_init N_updates r_init =
     \<lparr> r_accepted_array = zeros N_updates, num_accepted_r = 0, r_prev = r_init \<rparr>"

definition r_trial_of :: "(nat \<Rightarrow> real) \<Rightarrow> mc_state \<Rightarrow> nat \<Rightarrow> real" where
  "r_trial_of normal st i = r_prev st + normal i"

definition p_accept :: "real \<Rightarrow> (real \<Rightarrow> real) \<Rightarrow> real \<Rightarrow> real \<Rightarrow> real" where
  "p_accept temperature_val E_spline_shifted r_trial r_prev_val =
     exp (- E_spline_shifted r_trial / temperature_val)
       / exp (- E_spline_shifted r_prev_val / temperature_val)"

definition mc_step ::
  "real \<Rightarrow> (real \<Rightarrow> real) \<Rightarrow> (nat \<Rightarrow> real) \<Rightarrow> (nat \<Rightarrow> real) \<Rightarrow> mc_state \<Rightarrow> nat
    \<Rightarrow> py_error + mc_state" where
  "mc_step temperature_val E_spline_shifted normal uniform st i =
     (let r_trial = r_trial_of normal st i;
          p = p_accept temperature_val E_spline_shifted r_trial (r_prev st)
      in if uniform i < p
         then if num_accepted_r st < length (r_accepted_array st)
              then Inr (st\<lparr> r_accepted_array := (r_accepted_array st)[num_accepted_r st := r_trial],
                           num_accepted_r := num_accepted_r st + 1 \<rparr>)
              else Inl IndexError
         else Inr st)"

text \<open>The state after the first \<open>n\<close> iterations of a loop over \<open>N_updates\<close> indices.\<close>

definition mc_iterations ::
  "real \<Rightarrow> (real \<Rightarrow> real) \<Rightarrow> (nat \<Rightarrow> real) \<Rightarrow> (nat \<Rightarrow> real) \<Rightarrow> nat \<Rightarrow> real \<Rightarrow> nat
    \<Rightarrow> py_error + mc_state" where
  "mc_iterations temperature_val E_spline_shifted normal uniform N_updates r_init n =
     for_range (mc_step temperature_val E_spline_shifted normal uniform)
       (mc_init N_updates r_init) [0..<n]"

definition mc_loop ::
  "real \<Rightarrow> (real \<Rightarrow> real) \<Rightarrow> (nat \<Rightarrow> real) \<Rightarrow> (nat \<Rightarrow> real) \<Rightarrow> nat \<Rightarrow> real
    \<Rightarrow> py_error + mc_state" where
  "mc_loop temperature_val E_spline_shifted normal uniform N_updates r_init =
     mc_iterations temperature_val E_spline_shifted normal uniform N_updates r_init N_updates"

definition r_av_mc :: "mc_state \<Rightarrow> real" where
  "r_av_mc st = mean (take (num_accepted_r st) (r_accepted_array st))"

text \<open>
  For comparison only, the step of a Metropolis sampler as the specification describes
  it: as \<open>mc_step\<close>, and an accepted proposal becomes the current position \<open>r_prev\<close>. The
  notebook has no such assignment.
\<close>

definition metropolis_step_spec ::
  "real \<Rightarrow> (real \<Rightarrow> real) \<Rightarrow> (nat \<Rightarrow> real) \<Rightarrow> (nat \<Rightarrow> real) \<Rightarrow> mc_state \<Rightarrow> nat
    \<Rightarrow> py_error + mc_state" where
  "metropolis_step_spec temperature_val E_spline_shifted normal uniform st i =
     (let r_trial = r_trial_of normal st i;
          p = p_accept temperature_val E_spline_shifted r_trial (r_prev st)
      in if uniform i < p
         then if num_accepted_r st < length (r_accepted_array st)
              then Inr (st\<lparr> r_accepted_array := (r_accepted_array st)[num_accepted_r st := r_trial],
                           num_accepted_r := num_accepted_r st + 1,
                           r_prev := r_trial \<rparr>)
              else Inl IndexError
         else Inr st)"

subsection \<open>Equilibrium geometry and force constant\<close>

text \<open>
  \<^verbatim>\<open>
  E_spline = InterpolatedUnivariateSpline(r_array_au, E_array, k=3)
  r_fine = np.linspace(0.5*1.89,2.3*1.89,200)
  E_fine = E_spline(r_fine)
  minE = min(E_fine)
  fE = E_spline.derivative()
  cE = fE.derivative()
  Req_idx = np.argmin(E_fine)
  r_eq = r_fine[Req_idx]
  k = cE(r_eq)
  \<close>
  A spline object is used through two operations only: it is called on a point, and
  \<^verbatim>\<open>derivative()\<close> gives the spline object of its derivative. The model of such an
  object is the family of its derivatives, \<open>s n\<close> being the \<open>n\<close>-th one; how scipy fits
  the spline to the samples is not modelled.
\<close>

type_synonym spline = "nat \<Rightarrow> real \<Rightarrow> real"

definition call :: "spline \<Rightarrow> real \<Rightarrow> real" where
  "call s x = s 0 x"

definition derivative :: "spline \<Rightarrow> spline" where
  "derivative s = (\<lambda>n. s (Suc n))"

text \<open>
  \<^verbatim>\<open>np.linspace(start, stop, num)\<close>: \<open>num\<close> points \<open>start + i * step\<close> with
  \<open>step = (stop - start) / (num - 1)\<close>.
\<close>

definition linspace :: "real \<Rightarrow> real \<Rightarrow> nat \<Rightarrow> real list" where
  "linspace start stop num =
     map (\<lambda>i. start + real i * ((stop - start) / real (num - 1))) [0..<num]"

text \<open>
  \<^verbatim>\<open>np.argmin\<close> scans the array and returns the index of the first occurrence of the
  smallest value; Python's \<^verbatim>\<open>min\<close> keeps the first smallest item. Both raise
  \<^verbatim>\<open>ValueError\<close> on an empty sequence.
\<close>

fun argmin_scan :: "real list \<Rightarrow> nat \<Rightarrow> nat \<Rightarrow> real \<Rightarrow> nat" where
  "argmin_scan [] i best_i best = best_i"
| "argmin_scan (x # xs) i best_i best =
     (if x < best then argmin_scan xs (Suc i) i x else argmin_scan xs (Suc i) best_i best)"

definition argmin :: "real list \<Rightarrow> py_error + nat" where
  "argmin xs = (case xs of [] \<Rightarrow> Inl ValueError | x # rest \<Rightarrow> Inr (argmin_scan rest 1 0 x))"

definition py_min :: "real list \<Rightarrow> py_error + real" where
  "py_min xs =
     (case xs of [] \<Rightarrow> Inl ValueError
      | x # rest \<Rightarrow> Inr (fold (\<lambda>item best. if item < best then item else best) rest x))"

definition getitem :: "real list \<Rightarrow> nat \<Rightarrow> py_error + real" where
  "getitem xs i = (if i < length xs then Inr (xs ! i) else Inl IndexError)"

definition r_fine :: "real list" where
  "r_fine = linspace (0.5 * 1.89) (2.3 * 1.89) 200"

definition E_fine :: "spline \<Rightarrow> real list" where
  "E_fine E_spline = map (call E_spline) r_fine"

definition fE :: "spline \<Rightarrow> spline" where
  "fE E_spline = derivative E_spline"

definition cE :: "spline \<Rightarrow> spline" where
  "cE E_spline = derivative (fE E_spline)"

record equilibrium =
  minE :: real
  Req_idx :: nat
  r_eq :: real
  k_const :: real

definition equilibrium_geometry :: "spline \<Rightarrow> py_error + equilibrium" where
  "equilibrium_geometry E_spline =
     (case py_min (E_fine E_spline) of
        Inl e \<Rightarrow> Inl e
      | Inr m \<Rightarrow>
          case argmin (E_fine E_spline) of
            Inl e \<Rightarrow> Inl e
          | Inr idx \<Rightarrow>
              case getitem r_fine idx of
                Inl e \<Rightarrow> Inl e
              | Inr r \<Rightarrow>
                  Inr \<lparr> minE = m, Req_idx = idx, r_eq = r, k_const = call (cE E_spline) r \<rparr>)"

subsection \<open>Loop prefixes and invariants\<close>

text \<open>
  The state of the trajectory script once the loop has run through the indices
  \<open>1, \<dots>, n - 1\<close>; with \<open>n = N_updates\<close> it is \<open>trajectory_run\<close>.
\<close>

definition trajectory_iterations ::
  "langevin_params \<Rightarrow> (nat \<Rightarrow> real) \<Rightarrow> nat \<Rightarrow> real \<Rightarrow> real \<Rightarrow> real \<Rightarrow> nat
    \<Rightarrow> py_error + trajectory" where
  "trajectory_iterations P normal N_updates r_init v_init rp_init n =
     (case trajectory_init P normal N_updates r_init v_init rp_init of
        Inl e \<Rightarrow> Inl e
      | Inr st \<Rightarrow> for_range (trajectory_step P normal) st [1..<n])"

text \<open>
  What holds of the trajectory state when \<open>n\<close> BBK updates have been made: the arrays
  keep their length, \<open>result_array\<close> is the \<open>n\<close>-th iterate, slot 0 holds the initial
  state, slot \<open>i \<ge> 1\<close> holds iterate \<open>i + 1\<close>, and the time stamps are \<open>i * dt\<close>.
\<close>

definition traj_inv ::
  "langevin_params \<Rightarrow> (nat \<Rightarrow> real) \<Rightarrow> nat \<Rightarrow> real \<times> real \<times> real \<Rightarrow> nat \<Rightarrow> trajectory
    \<Rightarrow> bool" where
  "traj_inv P normal N s0 n st \<longleftrightarrow>
     length (r_vs_t st) = N \<and> length (v_vs_t st) = N \<and> length (e_vs_t st) = N \<and>
     length (temp_vs_t st) = N \<and> length (t_array st) = N \<and>
     BBK_iterate P normal n s0 = Inr (result_array st) \<and>
     r_vs_t st ! 0 = fst s0 \<and> v_vs_t st ! 0 = fst (snd s0) \<and>
     (\<forall>i. 1 \<le> i \<and> i < n \<longrightarrow>
        (\<exists>rp'. BBK_iterate P normal (Suc i) s0 = Inr (r_vs_t st ! i, v_vs_t st ! i, rp'))) \<and>
     (\<forall>i<n. t_array st ! i = dt_of P * real i)"

text \<open>
  The positions the Monte Carlo loop has accepted in its first \<open>n\<close> iterations, in
  order: the trials of the iterations whose uniform draw was below \<open>p\<close>. Every trial
  perturbs \<open>r_init\<close>, the value \<open>r_prev\<close> keeps throughout.
\<close>

definition accepted_trials ::
  "real \<Rightarrow> (real \<Rightarrow> real) \<Rightarrow> (nat \<Rightarrow> real) \<Rightarrow> (nat \<Rightarrow> real) \<Rightarrow> real \<Rightarrow> nat \<Rightarrow> real list" where
  "accepted_trials temperature_val E_spline_shifted normal uniform r_init n =
     map (\<lambda>i. r_init + normal i)
       (filter (\<lambda>i. uniform i < p_accept temperature_val E_spline_shifted (r_init + normal i) r_init)
          [0..<n])"

definition mc_inv ::
  "real \<Rightarrow> (real \<Rightarrow> real) \<Rightarrow> (nat \<Rightarrow> real) \<Rightarrow> (nat \<Rightarrow> real) \<Rightarrow> nat \<Rightarrow> real \<Rightarrow> nat \<Rightarrow> mc_state
    \<Rightarrow> bool" where
  "mc_inv T E normal uniform N r_init n st \<longleftrightarrow>
     length (r_accepted_array st) = N \<and>
     num_accepted_r st \<le> n \<and>
     r_prev st = r_init \<and>
     take (num_accepted_r st) (r_accepted_array st) = accepted_trials T E normal uniform r_init n \<and>
     drop (num_accepted_r st) (r_accepted_array st) = zeros (N - num_accepted_r st)"

section \<open>Properties\<close>

subsection \<open>Loops\<close>

lemma for_range_snoc:
  "for_range body st (idxs @ [i]) =
     (case for_range body st idxs of Inl e \<Rightarrow> Inl e | Inr st' \<Rightarrow> body st' i)"
  by (induction idxs arbitrary: st) (auto split: sum.splits)

subsection \<open>The BBK update\<close>

lemma float_overflow_bound_gt_one: "1 < float_overflow_bound"
  by (simp add: float_overflow_bound_def)

lemma float_square_returns:
  "x\<^sup>2 < float_overflow_bound \<Longrightarrow> float_square x = Inr (x\<^sup>2)"
  by (simp add: float_square_def)

lemma float_square_raises:
  "float_overflow_bound \<le> x\<^sup>2 \<Longrightarrow> float_square x = Inl OverflowError"
  by (simp add: float_square_def)

lemma float_square_zero: "float_square 0 = Inr 0"
  using float_overflow_bound_gt_one by (simp add: float_square_def)

lemma BBK_returns:
  "dt \<noteq> 0 \<Longrightarrow> dt\<^sup>2 < float_overflow_bound
    \<Longrightarrow> \<exists>res. BBK r v rp gamma_val T mu f dt z = Inr res"
  by (simp add: BBK_def Let_def float_square_returns)

lemma BBK_raises_iff:
  "BBK r v rp gamma_val T mu f dt z = Inl e \<longleftrightarrow>
     (float_overflow_bound \<le> dt\<^sup>2 \<and> e = OverflowError) \<or> (dt = 0 \<and> e = ZeroDivisionError)"
proof (cases "float_overflow_bound \<le> dt\<^sup>2")
  case True
  with float_overflow_bound_gt_one have "dt \<noteq> 0" by auto
  with True show ?thesis by (auto simp: BBK_def Let_def float_square_raises)
next
  case False
  then have "float_square dt = Inr (dt\<^sup>2)" by (simp add: float_square_returns)
  with False show ?thesis by (auto simp: BBK_def Let_def)
qed

text \<open>
  C2. Given \<open>r\<close>, \<open>v\<close>, \<open>rp\<close>, \<open>gamma\<close>, \<open>T\<close>, \<open>mu\<close>, the force \<open>F = -dE/dr\<close> and a time
  step \<open>dt\<close> that is not zero and whose square does not overflow, \<open>BBK\<close> returns the
  triple \<open>[r', v', rp']\<close> with \<open>a = (F r + rp)/mu - gamma*v\<close>,
  \<open>r' = r + v*dt + 0.5*a*dt^2\<close>, \<open>a' = (F r' + rp')/mu\<close> and
  \<open>v' = (v + 0.5*(a + a')*dt)/(1 + 0.5*gamma*dt)\<close>, where \<open>rp'\<close> is the freshly drawn
  perturbation \<open>sqrt (2*T*gamma*mu/dt) * z\<close>.
\<close>

theorem BBK_update_formula:
  assumes "dt \<noteq> 0" and "dt\<^sup>2 < float_overflow_bound"
  shows "BBK r v rp gamma_val T mu f_interp dt z =
     (let F = (\<lambda>x. - f_interp x);
          rp' = sqrt (2 * T * gamma_val * mu / dt) * z;
          a = (F r + rp) / mu - gamma_val * v;
          r' = r + v * dt + 0.5 * a * dt\<^sup>2;
          a' = (F r' + rp') / mu;
          v' = (v + 0.5 * (a + a') * dt) / (1 + 0.5 * gamma_val * dt)
      in Inr (r', v', rp'))"
  using assms by (simp add: BBK_def Let_def float_square_returns)

text \<open>
  A harmonic force \<open>f_interp x = x\<close> on a unit mass with drag 2 at temperature 1, one step
  of length 1 from \<open>r = 1\<close> with velocity 1 and the normal draw 1: \<open>a = -1 - 2 = -3\<close>,
  \<open>r' = 1 + 1 - 3/2 = 1/2\<close>, \<open>rp' = sqrt 4 * 1 = 2\<close>, \<open>a' = -1/2 + 2 = 3/2\<close>,
  \<open>v' = (1 - 3/4) / 2 = 1/8\<close>.
\<close>

theorem BBK_update_formula_witness:
  "(1::real) \<noteq> 0 \<and> (1::real)\<^sup>2 < float_overflow_bound \<and>
   BBK 1 1 0 2 1 1 (\<lambda>x. x) 1 1 = Inr (1 / 2, 1 / 8, 2)"
  using BBK_update_formula [where dt = 1 and r = 1 and v = 1 and rp = 0 and gamma_val = 2
      and T = 1 and mu = 1 and f_interp = "\<lambda>x. x" and z = 1]
    float_overflow_bound_gt_one
  by (simp add: Let_def power2_eq_square)

text \<open>
  Without the conditions on \<open>dt\<close> C2 fails, as the call does not return a triple: with
  \<open>dt = 0\<close> the quotient under the square root raises, and with \<open>dt = 10^200\<close> the power
  \<^verbatim>\<open>dt**2\<close> does. Here with the notebook's drag, temperature and mass.
\<close>

theorem BBK_time_step_raises:
  "BBK 1 0 0 gamma temperature mu_HF id 0 0 = Inl ZeroDivisionError \<and>
   BBK 1 0 0 gamma temperature mu_HF id (10 ^ 200) 0 = Inl OverflowError"
  by (simp add: BBK_def Let_def float_square_def float_overflow_bound_def)

subsection \<open>The Langevin trajectory\<close>

lemma traj_init_inv:
  assumes "dt_of P \<noteq> 0" "(dt_of P)\<^sup>2 < float_overflow_bound" "0 < N"
    and v: "v\<^sup>2 < float_overflow_bound"
  shows "\<exists>st. trajectory_init P normal N r v rp = Inr st \<and> traj_inv P normal N (r, v, rp) 1 st"
proof -
  from BBK_returns[OF assms(1,2)] obtain res where
    res: "BBK r v rp (gamma_of P) (temperature_of P) (mu_of P) (fE_of P) (dt_of P) (normal 0) = Inr res"
    by blast
  with assms(3) float_square_returns[OF v] show ?thesis
    by (simp add: trajectory_init_def traj_inv_def zeros_def)
qed

lemma traj_step_inv:
  assumes dt: "dt_of P \<noteq> 0" "(dt_of P)\<^sup>2 < float_overflow_bound"
    and inv: "traj_inv P normal N s0 n st" and n: "1 \<le> n" "n < N"
  shows "\<exists>st'. trajectory_step P normal st n = Inr st' \<and> traj_inv P normal N s0 (Suc n) st'"
proof -
  obtain r0 v0 rp0 where ra: "result_array st = (r0, v0, rp0)" by (cases "result_array st")
  from BBK_returns[OF dt] obtain r1 v1 rp1 where
    b: "BBK r0 v0 rp0 (gamma_of P) (temperature_of P) (mu_of P) (fE_of P) (dt_of P) (normal n) = Inr (r1, v1, rp1)"
    by (metis prod_cases3)
  from inv ra have it: "BBK_iterate P normal n s0 = Inr (r0, v0, rp0)" by (simp add: traj_inv_def)
  have next_it: "BBK_iterate P normal (Suc n) s0 = Inr (r1, v1, rp1)" using it b by simp
  let ?st' = "\<lparr> r_vs_t = (r_vs_t st)[n := r1], v_vs_t = (v_vs_t st)[n := v1],
      e_vs_t = (e_vs_t st)[n := (E_spline_of P r1 - minE_of P) + 0.5 * mu_of P * v1\<^sup>2],
      temp_vs_t = (temp_vs_t st)[n := mu_of P * v1\<^sup>2],
      t_array = (t_array st)[n := dt_of P * real n], result_array = (r1, v1, rp1) \<rparr>"
  from inv n have step: "trajectory_step P normal st n = Inr ?st'"
    by (simp add: trajectory_step_def ra b traj_inv_def)
  have "traj_inv P normal N s0 (Suc n) ?st'"
    unfolding traj_inv_def
  proof (intro conjI allI impI)
    fix i assume i: "1 \<le> i \<and> i < Suc n"
    show "\<exists>rp'. BBK_iterate P normal (Suc i) s0 = Inr (r_vs_t ?st' ! i, v_vs_t ?st' ! i, rp')"
    proof (cases "i = n")
      case True
      with inv n next_it show ?thesis by (simp add: traj_inv_def)
    next
      case False
      with i have "1 \<le> i \<and> i < n" by simp
      with inv obtain rp' where "BBK_iterate P normal (Suc i) s0 = Inr (r_vs_t st ! i, v_vs_t st ! i, rp')"
        unfolding traj_inv_def by blast
      with False show ?thesis by simp
    qed
  next
    fix i assume i: "i < Suc n"
    show "t_array ?st' ! i = dt_of P * real i"
    proof (cases "i = n")
      case True
      with inv n show ?thesis by (simp add: traj_inv_def)
    next
      case False
      with i have "i < n" by simp
      with inv False show ?thesis by (simp add: traj_inv_def)
    qed
  qed (use inv n next_it in \<open>simp_all add: traj_inv_def\<close>)
  with step show ?thesis by blast
qed

lemma trajectory_iterations_inv:
  assumes dt: "dt_of P \<noteq> 0" "(dt_of P)\<^sup>2 < float_overflow_bound"
    and v: "v\<^sup>2 < float_overflow_bound" and n: "1 \<le> n" "n \<le> N"
  shows "\<exists>st. trajectory_iterations P normal N r v rp n = Inr st \<and> traj_inv P normal N (r, v, rp) n st"
  using n
proof (induction n)
  case 0
  then show ?case by simp
next
  case (Suc n)
  show ?case
  proof (cases "n = 0")
    case True
    with Suc.prems traj_init_inv[OF dt _ v, of N normal r rp] show ?thesis
      by (auto simp: trajectory_iterations_def)
  next
    case False
    with Suc obtain st where st: "trajectory_iterations P normal N r v rp n = Inr st"
      "traj_inv P normal N (r, v, rp) n st" by auto
    from False Suc.prems traj_step_inv[OF dt st(2)] obtain st' where
      st': "trajectory_step P normal st n = Inr st'" "traj_inv P normal N (r, v, rp) (Suc n) st'"
      by auto
    from False have "[1..<Suc n] = [1..<n] @ [n]" by simp
    with st(1) st' show ?thesis
      by (auto simp: trajectory_iterations_def for_range_snoc split: sum.splits)
  qed
qed

lemma trajectory_run_iterations:
  "trajectory_run P normal N r v rp = trajectory_iterations P normal N r v rp N"
  by (simp add: trajectory_run_def trajectory_iterations_def)

lemma trajectory_records_later_iterates:
  assumes "dt_of P \<noteq> 0" "(dt_of P)\<^sup>2 < float_overflow_bound"
    and "v\<^sup>2 < float_overflow_bound" and "0 < N"
  shows "\<exists>st. trajectory_run P normal N r v rp = Inr st \<and>
     length (r_vs_t st) = N \<and> length (v_vs_t st) = N \<and> length (t_array st) = N \<and>
     r_vs_t st ! 0 = r \<and> v_vs_t st ! 0 = v \<and>
     (\<forall>i. 1 \<le> i \<and> i < N \<longrightarrow>
        (\<exists>rp'. BBK_iterate P normal (Suc i) (r, v, rp) = Inr (r_vs_t st ! i, v_vs_t st ! i, rp'))) \<and>
     (\<forall>i<N. t_array st ! i = dt_of P * real i)"
proof -
  from assms(4) have "1 \<le> N" by simp
  from trajectory_iterations_inv[OF assms(1,2,3) this, of N normal r rp] show ?thesis
    by (auto simp: trajectory_run_iterations traj_inv_def)
qed

text \<open>
  C3. The claim is that \<open>r_vs_t[i]\<close> and \<open>v_vs_t[i]\<close> hold the state after exactly \<open>i\<close>
  BBK updates, at \<open>t_array[i] = i*dt\<close>. The script feeds the result of its first update
  into the loop without storing it, so the slot \<open>i \<ge> 1\<close> holds the state after \<open>i + 1\<close>
  updates whenever the script raises nothing (\<open>trajectory_records_later_iterates\<close>). A
  free particle starting at 0 with
  velocity 1 and \<open>dt = 1\<close> is at 1 after one update and at 2 after two; with
  \<open>N_updates = 2\<close> the script stores 2 in \<open>r_vs_t[1]\<close>, under the time stamp 1.
\<close>

theorem trajectory_skips_first_update:
  "trajectory_run
     \<lparr> gamma_of = 0, temperature_of = 0, mu_of = 1, E_spline_of = (\<lambda>r. 0), minE_of = 0,
       fE_of = (\<lambda>r. 0), dt_of = 1 \<rparr> (\<lambda>j. 0) 2 0 1 0
   = Inr \<lparr> r_vs_t = [0, 2], v_vs_t = [1, 1], e_vs_t = [1 / 2, 1 / 2], temp_vs_t = [1, 1],
           t_array = [0, 1], result_array = (2, 1, 0) \<rparr>
   \<and> BBK_iterate
     \<lparr> gamma_of = 0, temperature_of = 0, mu_of = 1, E_spline_of = (\<lambda>r. 0), minE_of = 0,
       fE_of = (\<lambda>r. 0), dt_of = 1 \<rparr> (\<lambda>j. 0) 1 (0, 1, 0) = Inr (1, 1, 0)"
  by (simp add: trajectory_run_def trajectory_init_def trajectory_step_def BBK_def zeros_def
      float_square_def float_overflow_bound_def Let_def numeral_2_eq_2)

subsection \<open>The Metropolis Monte Carlo loop\<close>

lemma p_accept_boltzmann:
  "p_accept T E rt rp = exp (- (E rt - E rp) / T)"
proof -
  have "- (E rt - E rp) / T = - E rt / T - (- E rp / T)"
    by (simp add: diff_divide_distrib)
  then show ?thesis
    by (simp only: p_accept_def exp_diff)
qed

lemma p_accept_downhill: "0 < T \<Longrightarrow> E rt \<le> E rp \<Longrightarrow> 1 \<le> p_accept T E rt rp"
  by (simp add: p_accept_boltzmann)

text \<open>
  Adding a constant to the energy leaves the acceptance probability as it is. (Whether
  the spline fitted to \<open>E_array + 100\<close> is the spline of \<open>E_array\<close> plus 100 is a matter of
  scipy's fit, not of this script.)
\<close>

lemma p_accept_shift: "p_accept T (\<lambda>r. E r + c) rt rp = p_accept T E rt rp"
  by (simp add: p_accept_boltzmann)

lemma temperature_pos: "0 < temperature"
  by (simp add: temperature_def)

lemma mc_inv_init: "mc_inv T E normal uniform N r_init 0 (mc_init N r_init)"
  by (simp add: mc_inv_def mc_init_def accepted_trials_def zeros_def)

lemma accepted_trials_Suc:
  "accepted_trials T E normal uniform r_init (Suc n) =
     accepted_trials T E normal uniform r_init n @
       (if uniform n < p_accept T E (r_init + normal n) r_init then [r_init + normal n] else [])"
  by (simp add: accepted_trials_def)

lemma mc_step_inv:
  assumes inv: "mc_inv T E normal uniform N r_init n st" and n: "n < N"
  shows "\<exists>st'. mc_step T E normal uniform st n = Inr st' \<and> mc_inv T E normal uniform N r_init (Suc n) st'"
proof (cases "uniform n < p_accept T E (r_init + normal n) r_init")
  case False
  with inv show ?thesis
    by (simp add: mc_step_def mc_inv_def r_trial_of_def accepted_trials_Suc)
next
  case True
  let ?a = "r_accepted_array st" and ?k = "num_accepted_r st"
  from inv n have k: "?k < length ?a" by (simp add: mc_inv_def)
  from inv have d: "drop ?k ?a = zeros (N - ?k)" by (simp add: mc_inv_def)
  have t: "take (Suc ?k) (?a[?k := r_init + normal n]) = take ?k ?a @ [r_init + normal n]"
    using k by (simp add: take_Suc_conv_app_nth)
  have "drop (Suc ?k) (?a[?k := r_init + normal n]) = drop (Suc ?k) ?a" by simp
  also have "\<dots> = drop 1 (drop ?k ?a)" by simp
  also have "\<dots> = zeros (N - Suc ?k)" unfolding d by (simp add: zeros_def)
  finally have dr: "drop (Suc ?k) (?a[?k := r_init + normal n]) = zeros (N - Suc ?k)" .
  from inv True k t dr show ?thesis
    by (simp add: mc_step_def mc_inv_def r_trial_of_def accepted_trials_Suc)
qed

lemma mc_iterations_inv:
  "n \<le> N \<Longrightarrow> \<exists>st. mc_iterations T E normal uniform N r_init n = Inr st \<and> mc_inv T E normal uniform N r_init n st"
proof (induction n)
  case 0
  show ?case by (simp add: mc_iterations_def mc_inv_init)
next
  case (Suc n)
  then obtain st where st: "mc_iterations T E normal uniform N r_init n = Inr st"
      "mc_inv T E normal uniform N r_init n st" by auto
  from mc_step_inv[OF st(2)] Suc.prems obtain st' where
    "mc_step T E normal uniform st n = Inr st'" "mc_inv T E normal uniform N r_init (Suc n) st'"
    by auto
  with st(1) show ?case
    by (simp add: mc_iterations_def for_range_snoc)
qed

lemma mc_r_prev_unchanged:
  assumes "n \<le> N" "mc_iterations T E normal uniform N r_init n = Inr st"
  shows "r_prev st = r_init"
  using mc_iterations_inv[OF assms(1), of T E normal uniform r_init] assms(2)
  by (auto simp: mc_inv_def)

lemma mc_inv_zero_tail:
  assumes "mc_inv T E normal uniform N r_init n st" "num_accepted_r st \<le> j" "j < N"
  shows "r_accepted_array st ! j = 0"
proof -
  let ?k = "num_accepted_r st"
  from assms have len: "length (r_accepted_array st) = N"
    and d: "drop ?k (r_accepted_array st) = zeros (N - ?k)"
    by (simp_all add: mc_inv_def)
  from assms(2,3) len have "drop ?k (r_accepted_array st) ! (j - ?k) = r_accepted_array st ! j"
    by simp
  moreover from assms(2,3) have "zeros (N - ?k) ! (j - ?k) = 0"
    by (simp add: zeros_def)
  ultimately show ?thesis using d by simp
qed

text \<open>
  C1. The claim is that every proposal perturbs the current state of the chain, an
  accepted proposal becoming the state the next one perturbs. The loop never assigns
  \<open>r_prev\<close> (\<open>mc_r_prev_unchanged\<close>), so every proposal perturbs \<open>r_init\<close>. On a flat
  energy every proposal is accepted; from \<open>r_init = 0\<close> with the normal draws 1 and 2 the
  first proposal is 1 and is accepted, after which \<open>r_prev\<close> is still 0 and the second
  proposal is \<open>0 + 2 = 2\<close>. The sampler of the specification proposes \<open>1 + 2 = 3\<close>.
\<close>

theorem metropolis_r_prev_not_updated:
  "mc_iterations 1 (\<lambda>r. 0) (\<lambda>i. real (Suc i)) (\<lambda>i. 1 / 2) 2 0 1
     = Inr \<lparr> r_accepted_array = [1, 0], num_accepted_r = 1, r_prev = 0 \<rparr>
   \<and> mc_loop 1 (\<lambda>r. 0) (\<lambda>i. real (Suc i)) (\<lambda>i. 1 / 2) 2 0
     = Inr \<lparr> r_accepted_array = [1, 2], num_accepted_r = 2, r_prev = 0 \<rparr>
   \<and> for_range (metropolis_step_spec 1 (\<lambda>r. 0) (\<lambda>i. real (Suc i)) (\<lambda>i. 1 / 2))
       (mc_init 2 0) [0..<2]
     = Inr \<lparr> r_accepted_array = [1, 3], num_accepted_r = 2, r_prev = 3 \<rparr>"
  by (simp add: mc_loop_def mc_iterations_def mc_init_def mc_step_def metropolis_step_spec_def
      p_accept_def r_trial_of_def zeros_def Let_def numeral_2_eq_2)

text \<open>
  C4. The acceptance probability is the Boltzmann weight of the energy difference,
  \<open>p = exp (- (E r_trial - E r_prev) / temperature)\<close>, for the spline \<open>E\<close> the loop
  evaluates, and a step accepts its trial (stores it and counts it) exactly when the
  uniform draw is below that weight; otherwise it leaves the state as it was.
\<close>

theorem acceptance_probability_boltzmann:
  "p_accept T E r_trial r_prev_val = exp (- (E r_trial - E r_prev_val) / T) \<and>
   mc_step T E normal uniform st i =
     (if uniform i < exp (- (E (r_prev st + normal i) - E (r_prev st)) / T)
      then if num_accepted_r st < length (r_accepted_array st)
           then Inr (st\<lparr> r_accepted_array :=
                           (r_accepted_array st)[num_accepted_r st := r_prev st + normal i],
                        num_accepted_r := num_accepted_r st + 1 \<rparr>)
           else Inl IndexError
      else Inr st)"
  by (simp add: mc_step_def r_trial_of_def p_accept_boltzmann Let_def)

text \<open>
  C9. A downhill proposal is always accepted: at the notebook's temperature, when
  \<open>E r_trial \<le> E r_prev\<close> the acceptance probability is at least 1, so a uniform draw
  below 1 passes the test \<open>uniform() < p\<close> and the step stores the trial.
\<close>

theorem downhill_always_accepted:
  assumes "E (r_trial_of normal st i) \<le> E (r_prev st)" and "uniform i < 1"
  shows "1 \<le> p_accept temperature E (r_trial_of normal st i) (r_prev st) \<and>
     uniform i < p_accept temperature E (r_trial_of normal st i) (r_prev st) \<and>
     mc_step temperature E normal uniform st i =
       (if num_accepted_r st < length (r_accepted_array st)
        then Inr (st\<lparr> r_accepted_array :=
                        (r_accepted_array st)[num_accepted_r st := r_trial_of normal st i],
                     num_accepted_r := num_accepted_r st + 1 \<rparr>)
        else Inl IndexError)"
proof -
  from assms(1) have p: "1 \<le> p_accept temperature E (r_trial_of normal st i) (r_prev st)"
    by (rule p_accept_downhill[OF temperature_pos])
  with assms(2) have u: "uniform i < p_accept temperature E (r_trial_of normal st i) (r_prev st)"
    by simp
  from p u show ?thesis by (simp add: mc_step_def Let_def)
qed

text \<open>
  The energy \<open>E r = r\<close>, a proposal from \<open>r_prev = 1\<close> down to 0, the uniform draw
  \<open>1/2\<close>.
\<close>

theorem downhill_always_accepted_witness:
  "r_trial_of (\<lambda>i. - 1) (mc_init 2 1) 0 \<le> r_prev (mc_init 2 1) \<and>
   (1 / 2 :: real) < 1 \<and>
   1 \<le> p_accept temperature (\<lambda>r. r) 0 1 \<and>
   mc_step temperature (\<lambda>r. r) (\<lambda>i. - 1) (\<lambda>i. 1 / 2) (mc_init 2 1) 0
     = Inr \<lparr> r_accepted_array = [0, 0], num_accepted_r = 1, r_prev = 1 \<rparr>"
  using downhill_always_accepted [where E = "\<lambda>r. r" and normal = "\<lambda>i. - 1" and st = "mc_init 2 1"
      and i = 0 and uniform = "\<lambda>i. 1 / 2"]
  by (simp add: r_trial_of_def mc_init_def zeros_def numeral_2_eq_2)

text \<open>
  C10. After every iteration \<open>n \<le> N_updates\<close> of the Monte Carlo loop no store has
  raised, \<open>num_accepted_r\<close> is at most the number \<open>n\<close> of completed iterations and at
  most \<open>N_updates\<close>, the next store is within the array as long as an iteration is left,
  the entries from index \<open>num_accepted_r\<close> on are zero, the entries below it are the
  accepted positions in order, and the mean \<open>r_av_mc\<close> is their sum divided by
  \<open>num_accepted_r\<close>. (When nothing was accepted numpy's mean is \<^verbatim>\<open>nan\<close>; the quotient
  \<open>0 / 0\<close> of the model is 0.)
\<close>

theorem accepted_bookkeeping:
  assumes "n \<le> N_updates"
  shows "\<exists>st. mc_iterations T E normal uniform N_updates r_init n = Inr st \<and>
     num_accepted_r st \<le> n \<and> num_accepted_r st \<le> N_updates \<and>
     length (r_accepted_array st) = N_updates \<and>
     (n < N_updates \<longrightarrow> num_accepted_r st < length (r_accepted_array st)) \<and>
     (\<forall>j. num_accepted_r st \<le> j \<and> j < N_updates \<longrightarrow> r_accepted_array st ! j = 0) \<and>
     take (num_accepted_r st) (r_accepted_array st) = accepted_trials T E normal uniform r_init n \<and>
     length (accepted_trials T E normal uniform r_init n) = num_accepted_r st \<and>
     r_av_mc st = sum_list (accepted_trials T E normal uniform r_init n) / real (num_accepted_r st)"
proof -
  from mc_iterations_inv[OF assms] obtain st where
    run: "mc_iterations T E normal uniform N_updates r_init n = Inr st" and
    inv: "mc_inv T E normal uniform N_updates r_init n st" by blast
  from inv have len: "length (r_accepted_array st) = N_updates" and le: "num_accepted_r st \<le> n"
    and tk: "take (num_accepted_r st) (r_accepted_array st) = accepted_trials T E normal uniform r_init n"
    by (simp_all add: mc_inv_def)
  from le assms have leN: "num_accepted_r st \<le> N_updates" by simp
  have l: "length (accepted_trials T E normal uniform r_init n) = num_accepted_r st"
    using tk[symmetric] len leN by simp
  have av: "r_av_mc st = sum_list (accepted_trials T E normal uniform r_init n) / real (num_accepted_r st)"
    using l by (simp add: r_av_mc_def mean_def tk)
  have z: "\<forall>j. num_accepted_r st \<le> j \<and> j < N_updates \<longrightarrow> r_accepted_array st ! j = 0"
    using mc_inv_zero_tail[OF inv] by blast
  from run le leN len tk l av z show ?thesis by auto
qed

text \<open>Two iterations on a flat energy, both accepted.\<close>

theorem accepted_bookkeeping_witness:
  "(2::nat) \<le> 2 \<and>
   (\<exists>st. mc_iterations 1 (\<lambda>r. 0) (\<lambda>i. real (Suc i)) (\<lambda>i. 1 / 2) 2 0 2 = Inr st \<and>
      num_accepted_r st = 2 \<and> r_accepted_array st = [1, 2] \<and>
      accepted_trials 1 (\<lambda>r. 0) (\<lambda>i. real (Suc i)) (\<lambda>i. 1 / 2) 0 2 = [1, 2] \<and>
      r_av_mc st = 3 / 2)"
proof -
  have run: "mc_iterations 1 (\<lambda>r. 0) (\<lambda>i. real (Suc i)) (\<lambda>i. 1 / 2) 2 0 2
      = Inr \<lparr> r_accepted_array = [1, 2], num_accepted_r = 2, r_prev = 0 \<rparr>"
    by (simp add: mc_iterations_def mc_init_def mc_step_def p_accept_def r_trial_of_def
        zeros_def Let_def numeral_2_eq_2)
  from accepted_bookkeeping [of 2 2 1 "\<lambda>r. 0" "\<lambda>i. real (Suc i)" "\<lambda>i. 1 / 2" 0]
  obtain st where st: "mc_iterations 1 (\<lambda>r. 0) (\<lambda>i. real (Suc i)) (\<lambda>i. 1 / 2) 2 0 2 = Inr st"
    and tk: "take (num_accepted_r st) (r_accepted_array st)
      = accepted_trials 1 (\<lambda>r. 0) (\<lambda>i. real (Suc i)) (\<lambda>i. 1 / 2) 0 2"
    and av: "r_av_mc st = sum_list (accepted_trials 1 (\<lambda>r. 0) (\<lambda>i. real (Suc i)) (\<lambda>i. 1 / 2) 0 2)
      / real (num_accepted_r st)"
    by auto
  from st run have eq: "st = \<lparr> r_accepted_array = [1, 2], num_accepted_r = 2, r_prev = 0 \<rparr>"
    by simp
  from tk eq have acc: "accepted_trials 1 (\<lambda>r. 0) (\<lambda>i. real (Suc i)) (\<lambda>i. 1 / 2) 0 2 = [1, 2]"
    by simp
  from av acc eq have "r_av_mc st = 3 / 2" by simp
  with st eq acc show ?thesis by simp
qed

text \<open>
  C7. Neither recurrence guards against divergence, and neither can fail on a state.
  \<open>BBK\<close> returns a result for every position, velocity and perturbation, however large,
  exactly when the time step is not zero and its square does not overflow; whether it
  raises depends on \<open>dt\<close> alone. Every iteration of the Monte Carlo loop returns a state,
  whatever the positions, energies and draws.
\<close>

theorem updates_never_raise:
  "((\<exists>res. BBK r v rp gamma_val T mu f_interp dt z = Inr res)
      \<longleftrightarrow> dt \<noteq> 0 \<and> dt\<^sup>2 < float_overflow_bound) \<and>
   (n \<le> N_updates \<longrightarrow> (\<exists>st. mc_iterations T' E normal uniform N_updates r_init n = Inr st)) \<and>
   (\<exists>st. mc_loop T' E normal uniform N_updates r_init = Inr st)"
proof (intro conjI)
  show "(\<exists>res. BBK r v rp gamma_val T mu f_interp dt z = Inr res)
      \<longleftrightarrow> dt \<noteq> 0 \<and> dt\<^sup>2 < float_overflow_bound"
  proof
    assume "\<exists>res. BBK r v rp gamma_val T mu f_interp dt z = Inr res"
    then have no: "\<And>e. BBK r v rp gamma_val T mu f_interp dt z \<noteq> Inl e" by auto
    have "dt \<noteq> 0"
      using no[of ZeroDivisionError] by (auto simp: BBK_raises_iff)
    moreover have "dt\<^sup>2 < float_overflow_bound"
      using no[of OverflowError] by (auto simp: BBK_raises_iff not_le)
    ultimately show "dt \<noteq> 0 \<and> dt\<^sup>2 < float_overflow_bound" ..
  next
    assume "dt \<noteq> 0 \<and> dt\<^sup>2 < float_overflow_bound"
    then show "\<exists>res. BBK r v rp gamma_val T mu f_interp dt z = Inr res"
      using BBK_returns[of dt r v rp gamma_val T mu f_interp z] by blast
  qed
next
  show "n \<le> N_updates \<longrightarrow> (\<exists>st. mc_iterations T' E normal uniform N_updates r_init n = Inr st)"
    using mc_iterations_inv[of n N_updates T' E normal uniform r_init] by blast
next
  show "\<exists>st. mc_loop T' E normal uniform N_updates r_init = Inr st"
    using mc_iterations_inv[of N_updates N_updates T' E normal uniform r_init]
    by (auto simp: mc_loop_def)
qed

text \<open>The notebook's time step, drag, temperature and mass, on a state of size \<open>10^6\<close>.\<close>

theorem updates_never_raise_witness:
  "dt_step \<noteq> 0 \<and> dt_step\<^sup>2 < float_overflow_bound \<and>
   (\<exists>res. BBK 1000000 (- 1000000) 1000000 gamma temperature mu_HF id dt_step 3 = Inr res) \<and>
   (2::nat) \<le> 3 \<and>
   (\<exists>st. mc_iterations temperature id (\<lambda>i. 1000000) (\<lambda>i. 1 / 2) 3 0 2 = Inr st) \<and>
   (\<exists>st. mc_loop temperature id (\<lambda>i. 1000000) (\<lambda>i. 1 / 2) 3 0 = Inr st)"
proof -
  have "dt_step\<^sup>2 < 1"
    by (simp add: dt_step_def power2_eq_square)
  with float_overflow_bound_gt_one
  have dt: "dt_step \<noteq> 0 \<and> dt_step\<^sup>2 < float_overflow_bound"
    by (simp add: dt_step_def)
  with updates_never_raise [where dt = dt_step and r = 1000000 and v = "- 1000000"
      and rp = 1000000 and gamma_val = gamma and T = temperature and mu = mu_HF
      and f_interp = id and z = 3 and T' = temperature and E = id
      and normal = "\<lambda>i. 1000000" and uniform = "\<lambda>i. 1 / 2" and N_updates = 3
      and r_init = 0 and n = 2]
  show ?thesis by simp
qed

text \<open>
  As stated, for every input, C7 fails: on the same state \<open>BBK\<close> raises when the time step
  is \<open>10^200\<close> (the power \<^verbatim>\<open>dt**2\<close> overflows) and when it is zero.
\<close>

theorem BBK_update_not_total:
  "BBK 1000000 (- 1000000) 1000000 gamma temperature mu_HF id (10 ^ 200) 3 = Inl OverflowError \<and>
   BBK 1000000 (- 1000000) 1000000 gamma temperature mu_HF id 0 3 = Inl ZeroDivisionError"
  by (simp add: BBK_def Let_def float_square_def float_overflow_bound_def)

subsection \<open>Equilibrium geometry and force constant\<close>

lemma argmin_scan_cases:
  "(argmin_scan xs i best_i best = best_i \<and> (\<forall>x\<in>set xs. best \<le> x)) \<or>
   (i \<le> argmin_scan xs i best_i best \<and> argmin_scan xs i best_i best < i + length xs \<and>
    xs ! (argmin_scan xs i best_i best - i) < best \<and>
    (\<forall>x\<in>set xs. xs ! (argmin_scan xs i best_i best - i) \<le> x))"
proof (induction xs arbitrary: i best_i best)
  case Nil
  show ?case by simp
next
  case (Cons x xs)
  show ?case
  proof (cases "x < best")
    case True
    from Cons.IH[of "Suc i" i x] show ?thesis
    proof
      assume "argmin_scan xs (Suc i) i x = i \<and> (\<forall>y\<in>set xs. x \<le> y)"
      with True show ?thesis by simp
    next
      assume a: "Suc i \<le> argmin_scan xs (Suc i) i x \<and> argmin_scan xs (Suc i) i x < Suc i + length xs \<and>
        xs ! (argmin_scan xs (Suc i) i x - Suc i) < x \<and>
        (\<forall>y\<in>set xs. xs ! (argmin_scan xs (Suc i) i x - Suc i) \<le> y)"
      let ?r = "argmin_scan xs (Suc i) i x"
      from a have "?r - i = Suc (?r - Suc i)" by arith
      with a True show ?thesis by auto
    qed
  next
    case False
    from Cons.IH[of "Suc i" best_i best] show ?thesis
    proof
      assume "argmin_scan xs (Suc i) best_i best = best_i \<and> (\<forall>y\<in>set xs. best \<le> y)"
      with False show ?thesis by simp
    next
      assume a: "Suc i \<le> argmin_scan xs (Suc i) best_i best \<and> argmin_scan xs (Suc i) best_i best < Suc i + length xs \<and>
        xs ! (argmin_scan xs (Suc i) best_i best - Suc i) < best \<and>
        (\<forall>y\<in>set xs. xs ! (argmin_scan xs (Suc i) best_i best - Suc i) \<le> y)"
      let ?r = "argmin_scan xs (Suc i) best_i best"
      from a have "?r - i = Suc (?r - Suc i)" by arith
      with a False show ?thesis by auto
    qed
  qed
qed

lemma argmin_minimal:
  assumes "xs \<noteq> []"
  shows "\<exists>idx. argmin xs = Inr idx \<and> idx < length xs \<and> (\<forall>i<length xs. xs ! idx \<le> xs ! i)"
proof -
  from assms obtain x rest where xs: "xs = x # rest" by (cases xs) auto
  let ?r = "argmin_scan rest 1 0 x"
  have "?r < length xs \<and> (\<forall>y\<in>set xs. xs ! ?r \<le> y)"
    using argmin_scan_cases[of rest 1 0 x]
  proof
    assume "?r = 0 \<and> (\<forall>y\<in>set rest. x \<le> y)"
    then show ?thesis by (simp add: xs)
  next
    assume a: "1 \<le> ?r \<and> ?r < 1 + length rest \<and> rest ! (?r - 1) < x \<and> (\<forall>y\<in>set rest. rest ! (?r - 1) \<le> y)"
    then have "xs ! ?r = rest ! (?r - 1)" by (simp add: xs nth_Cons')
    with a show ?thesis by (auto simp: xs)
  qed
  then have "?r < length xs" and "\<forall>i<length xs. xs ! ?r \<le> xs ! i"
    by simp_all
  then show ?thesis by (simp add: argmin_def xs)
qed

lemma length_linspace: "length (linspace a b n) = n"
  by (simp add: linspace_def)

lemma length_r_fine: "length r_fine = 200"
  by (simp add: r_fine_def length_linspace)

lemma length_E_fine: "length (E_fine s) = 200"
  by (simp add: E_fine_def length_r_fine)

lemma py_min_returns: "xs \<noteq> [] \<Longrightarrow> \<exists>m. py_min xs = Inr m"
  by (cases xs) (simp_all add: py_min_def)

text \<open>
  C5. The equilibrium geometry is the minimiser of the interpolated energy over the
  200-point grid: the script raises nothing, \<open>Req_idx\<close> is an index of the grid with
  \<open>E_fine[Req_idx] \<le> E_fine[i]\<close> for every index \<open>i\<close>, \<open>r_eq = r_fine[Req_idx]\<close>, and \<open>k\<close>
  is the second derivative of the energy spline at \<open>r_eq\<close>.
\<close>

theorem equilibrium_geometry_minimiser:
  "\<exists>res. equilibrium_geometry E_spline = Inr res \<and>
     Req_idx res < 200 \<and>
     (\<forall>i<200. E_fine E_spline ! Req_idx res \<le> E_fine E_spline ! i) \<and>
     r_eq res = r_fine ! Req_idx res \<and>
     k_const res = call (derivative (derivative E_spline)) (r_eq res)"
proof -
  have ne: "E_fine E_spline \<noteq> []" using length_E_fine[of E_spline] by auto
  from py_min_returns[OF ne] obtain m where m: "py_min (E_fine E_spline) = Inr m" by blast
  from argmin_minimal[OF ne] obtain idx where idx: "argmin (E_fine E_spline) = Inr idx"
    "idx < 200" "\<forall>i<200. E_fine E_spline ! idx \<le> E_fine E_spline ! i"
    by (auto simp: length_E_fine)
  show ?thesis
    using m idx by (simp add: equilibrium_geometry_def getitem_def length_r_fine cE_def fE_def)
qed

text \<open>The constant spline, compared with the grid point 7.\<close>

theorem equilibrium_geometry_minimiser_witness:
  "(7::nat) < 200 \<and>
   (\<exists>res. equilibrium_geometry (\<lambda>n r. 0) = Inr res \<and> Req_idx res < 200 \<and>
      E_fine (\<lambda>n r. 0) ! Req_idx res \<le> E_fine (\<lambda>n r. 0) ! 7 \<and>
      r_eq res = r_fine ! Req_idx res)"
  using equilibrium_geometry_minimiser [of "\<lambda>n r. 0"] by auto

end
